theory Spec2Isabelle
  imports Main "HOL-Library.Word" "HOL-Library.Sublist"
begin

section \<open>The order book of ob.cpp\<close>

text \<open>
  A shallow embedding of the matching engine in \<^verbatim>\<open>src/ob.cpp\<close>: the classes
  \<^verbatim>\<open>Order\<close>, \<^verbatim>\<open>OrderModify\<close>, \<^verbatim>\<open>Trade\<close> and \<^verbatim>\<open>Orderbook\<close>.
  Field names are the source's without the trailing underscore; where two classes use the
  same field name the later one carries a prefix.
\<close>

subsection \<open>Data model\<close>

datatype OrderType = GoodTillCancel | FillAndKill

datatype Side = Buy | Sell

text \<open>
  \<^verbatim>\<open>Price = std::int32_t\<close>, compared as a signed value (\<open><s\<close>, \<open>\<le>s\<close>);
  \<^verbatim>\<open>Quantity = std::uint32_t\<close>, where \<open>+\<close> and \<open>-\<close> wrap; \<^verbatim>\<open>OrderId = std::uint64_t\<close>.
\<close>

type_synonym Price = "32 word"
type_synonym Quantity = "32 word"
type_synonym OrderId = "64 word"

record LevelInfo =
  l_price :: Price
  l_quantity :: Quantity

type_synonym LevelInfos = "LevelInfo list"

record Order =
  orderType :: OrderType
  orderId :: OrderId
  side :: Side
  price :: Price
  initialQuantity :: Quantity
  remainingQuantity :: Quantity

text \<open>The constructor \<^verbatim>\<open>Order(orderType, orderId, side, price, quantity)\<close>.\<close>

definition mk_Order :: "OrderType \<Rightarrow> OrderId \<Rightarrow> Side \<Rightarrow> Price \<Rightarrow> Quantity \<Rightarrow> Order" where
  "mk_Order ty oid sd p q =
     \<lparr>orderType = ty, orderId = oid, side = sd, price = p,
      initialQuantity = q, remainingQuantity = q\<rparr>"

definition GetFilledQuantity :: "Order \<Rightarrow> Quantity" where
  "GetFilledQuantity ord = initialQuantity ord - remainingQuantity ord"

definition IsFilled :: "Order \<Rightarrow> bool" where
  "IsFilled ord \<longleftrightarrow> remainingQuantity ord = 0"

text \<open>
  Exceptions are values: \<^verbatim>\<open>std::logic_error\<close> thrown by \<^verbatim>\<open>Order::Fill\<close> (the
  message names the order id) and \<^verbatim>\<open>std::out_of_range\<close> thrown by \<^verbatim>\<open>std::map::at\<close>.
\<close>

datatype error = logic_error OrderId | out_of_range

text \<open>
  \<^verbatim>\<open>Order::Fill\<close> mutates the object, so the model returns the exception (if any)
  together with the object as it is when the call ends.
\<close>

definition Fill :: "Order \<Rightarrow> Quantity \<Rightarrow> error option \<times> Order" where
  "Fill ord quantity =
     (if quantity > remainingQuantity ord then (Some (logic_error (orderId ord)), ord)
      else (None, ord\<lparr>remainingQuantity := remainingQuantity ord - quantity\<rparr>))"

record OrderModify =
  m_orderId :: OrderId
  m_price :: Price
  m_side :: Side
  m_quantity :: Quantity

definition ToOrderPointer :: "OrderModify \<Rightarrow> OrderType \<Rightarrow> Order" where
  "ToOrderPointer om ty = mk_Order ty (m_orderId om) (m_side om) (m_price om) (m_quantity om)"

record TradeInfo =
  t_orderId :: OrderId
  t_price :: Price
  t_quantity :: Quantity

record Trade =
  bidTrade :: TradeInfo
  askTrade :: TradeInfo

type_synonym Trades = "Trade list"

record OrderbookLevelInfos =
  info_bids :: LevelInfos
  info_asks :: LevelInfos

subsection \<open>The book\<close>

text \<open>
  \<^verbatim>\<open>OrderPointers = std::list<std::shared_ptr<Order>>\<close> is the list of the objects
  pointed to: \<^verbatim>\<open>front\<close> is the head, \<^verbatim>\<open>pop_front\<close> the tail, \<^verbatim>\<open>push_back\<close>
  appends. Mutation through a pointer held in a list (\<^verbatim>\<open>bid->Fill\<close>) rewrites the
  object in the list.

  A \<^verbatim>\<open>std::map<Price, OrderPointers, Compare>\<close> is the list of its (key, queue) pairs
  in iteration order, that is strictly sorted by \<^verbatim>\<open>Compare\<close>; \<^verbatim>\<open>begin()\<close> is the
  head of that list.

  An \<^verbatim>\<open>OrderEntry\<close> of the index holds a second pointer to the object and the list
  iterator of its node. Through the entry's pointer the engine reads only \<^verbatim>\<open>GetPrice\<close>,
  \<^verbatim>\<open>GetSide\<close> and \<^verbatim>\<open>GetOrderType\<close>, attributes that no method changes, so the
  entry records the object as it was when it was inserted. The iterator designates the
  node of the order by the order's id.

  References that the source binds before it erases the container element they refer to
  (\<^verbatim>\<open>bid\<close> after \<^verbatim>\<open>pop_front\<close> in \<^verbatim>\<open>MatchOrders\<close>, \<^verbatim>\<open>order\<close> after
  \<^verbatim>\<open>orders_.erase\<close> in \<^verbatim>\<open>CancelOrder\<close>, \<^verbatim>\<open>existingOrder\<close> in \<^verbatim>\<open>MatchOrder\<close>)
  are read as the objects they were bound to.
\<close>

type_synonym OrderPointers = "Order list"

type_synonym Levels = "(Price \<times> OrderPointers) list"

record OrderEntry =
  entry_order :: Order
  entry_location :: OrderId

record Orderbook =
  bids :: Levels
  asks :: Levels
  orders :: "OrderId \<rightharpoonup> OrderEntry"

text \<open>A default-constructed \<^verbatim>\<open>Orderbook\<close>.\<close>

definition empty_book :: Orderbook where
  "empty_book = \<lparr>bids = [], asks = [], orders = Map.empty\<rparr>"

text \<open>The comparators \<^verbatim>\<open>std::greater<Price>\<close> of the bids and \<^verbatim>\<open>std::less<Price>\<close> of the asks.\<close>

definition greater_Price :: "Price \<Rightarrow> Price \<Rightarrow> bool" where
  "greater_Price a b \<longleftrightarrow> b <s a"

definition less_Price :: "Price \<Rightarrow> Price \<Rightarrow> bool" where
  "less_Price a b \<longleftrightarrow> a <s b"

text \<open>
  \<^verbatim>\<open>m[p].push_back(ord)\<close>: the queue at key \<open>p\<close> gets \<open>ord\<close> at its tail; a missing
  key is inserted at its place in the order of the comparator, with an empty queue first.
\<close>

fun level_push_back :: "(Price \<Rightarrow> Price \<Rightarrow> bool) \<Rightarrow> Price \<Rightarrow> Order \<Rightarrow> Levels \<Rightarrow> Levels" where
  "level_push_back cmp p ord [] = [(p, [ord])]"
| "level_push_back cmp p ord ((k, q) # ls) =
     (if k = p then (k, q @ [ord]) # ls
      else if cmp p k then (p, [ord]) # (k, q) # ls
      else (k, q) # level_push_back cmp p ord ls)"

text \<open>\<^verbatim>\<open>m.at(p)\<close>: the queue at key \<open>p\<close>; a missing key throws \<^verbatim>\<open>std::out_of_range\<close>.\<close>

fun level_at :: "Levels \<Rightarrow> Price \<Rightarrow> OrderPointers option" where
  "level_at [] p = None"
| "level_at ((k, q) # ls) p = (if k = p then Some q else level_at ls p)"

text \<open>Writing through the reference that \<^verbatim>\<open>m.at(p)\<close> returned.\<close>

fun level_assign :: "Price \<Rightarrow> OrderPointers \<Rightarrow> Levels \<Rightarrow> Levels" where
  "level_assign p q' [] = []"
| "level_assign p q' ((k, q) # ls) =
     (if k = p then (k, q') # ls else (k, q) # level_assign p q' ls)"

text \<open>\<^verbatim>\<open>m.erase(p)\<close> by key.\<close>

fun level_erase :: "Price \<Rightarrow> Levels \<Rightarrow> Levels" where
  "level_erase p [] = []"
| "level_erase p ((k, q) # ls) = (if k = p then ls else (k, q) # level_erase p ls)"

text \<open>
  \<^verbatim>\<open>orders.erase(iterator)\<close>: the node that the iterator designates leaves the list.
  (An iterator into another list is undefined behaviour in C++; here the list stays as it is.)
\<close>

fun list_erase :: "OrderId \<Rightarrow> OrderPointers \<Rightarrow> OrderPointers" where
  "list_erase it [] = []"
| "list_erase it (x # xs) = (if orderId x = it then xs else x # list_erase it xs)"

text \<open>\<^verbatim>\<open>orders_.insert({k, e})\<close>: \<^verbatim>\<open>std::unordered_map::insert\<close> keeps an existing entry.\<close>

definition index_insert :: "OrderId \<Rightarrow> OrderEntry \<Rightarrow> (OrderId \<rightharpoonup> OrderEntry) \<Rightarrow> (OrderId \<rightharpoonup> OrderEntry)" where
  "index_insert k e m = (if k \<in> dom m then m else m(k \<mapsto> e))"

subsection \<open>CanMatch\<close>

definition CanMatch :: "Orderbook \<Rightarrow> Side \<Rightarrow> Price \<Rightarrow> bool" where
  "CanMatch s sd p =
     (if sd = Buy then
        (case asks s of [] \<Rightarrow> False | (bestAsk, _) # _ \<Rightarrow> bestAsk \<le>s p)
      else
        (case bids s of [] \<Rightarrow> False | (bestBid, _) # _ \<Rightarrow> p \<le>s bestBid))"

subsection \<open>MatchOrders\<close>

text \<open>
  One pass through the body of the inner \<^verbatim>\<open>while\<close> loop of \<^verbatim>\<open>MatchOrders\<close>, entered
  with \<open>bid\<close> at the front of the best bid queue (\<open>bidq\<close> behind it) and \<open>ask\<close> at the
  front of the best ask queue.
\<close>

definition MatchOrders_body ::
  "Order \<Rightarrow> OrderPointers \<Rightarrow> Order \<Rightarrow> OrderPointers \<Rightarrow> (OrderId \<rightharpoonup> OrderEntry) \<Rightarrow> Trades
     \<Rightarrow> error + (OrderPointers \<times> OrderPointers \<times> (OrderId \<rightharpoonup> OrderEntry) \<times> Trades)" where
  "MatchOrders_body bid bidq ask askq ords trades =
     (let quantity = min (remainingQuantity bid) (remainingQuantity ask) in
      case Fill bid quantity of
        (Some e, _) \<Rightarrow> Inl e
      | (None, bid1) \<Rightarrow>
          (case Fill ask quantity of
             (Some e, _) \<Rightarrow> Inl e
           | (None, ask1) \<Rightarrow>
               (let trades1 = trades @
                      [\<lparr>bidTrade = \<lparr>t_orderId = orderId bid1, t_price = price bid1, t_quantity = quantity\<rparr>,
                        askTrade = \<lparr>t_orderId = orderId ask1, t_price = price ask1, t_quantity = quantity\<rparr>\<rparr>];
                    (bidq1, ords1) =
                      (if IsFilled bid1 then (bidq, ords(orderId bid1 := None))
                       else (bid1 # bidq, ords));
                    (askq1, ords2) =
                      (if IsFilled ask1 then (askq, ords1(orderId ask1 := None))
                       else (ask1 # askq, ords1))
                in Inr (bidq1, askq1, ords2, trades1))))"

lemma Fill_min_left: "Fill bid (min (remainingQuantity bid) r) =
  (None, bid\<lparr>remainingQuantity := remainingQuantity bid - min (remainingQuantity bid) r\<rparr>)"
  by (simp add: Fill_def not_less)

lemma Fill_min_right: "Fill ask (min r (remainingQuantity ask)) =
  (None, ask\<lparr>remainingQuantity := remainingQuantity ask - min r (remainingQuantity ask)\<rparr>)"
  by (simp add: Fill_def not_less)

lemma MatchOrders_body_shorter:
  assumes "MatchOrders_body bid bidq ask askq ords trades = Inr (bidq1, askq1, ords1, trades1)"
  shows "length bidq1 + length askq1 < length (bid # bidq) + length (ask # askq)"
proof -
  let ?q = "min (remainingQuantity bid) (remainingQuantity ask)"
  have "remainingQuantity bid - ?q = 0 \<or> remainingQuantity ask - ?q = 0"
    by (simp add: min_def)
  with assms show ?thesis
    by (auto simp: MatchOrders_body_def Fill_min_left Fill_min_right IsFilled_def Let_def
        split: if_splits)
qed

text \<open>The inner \<^verbatim>\<open>while (!bids.empty() && !asks.empty())\<close>.\<close>

function MatchOrders_inner ::
  "OrderPointers \<Rightarrow> OrderPointers \<Rightarrow> (OrderId \<rightharpoonup> OrderEntry) \<Rightarrow> Trades
     \<Rightarrow> error + (OrderPointers \<times> OrderPointers \<times> (OrderId \<rightharpoonup> OrderEntry) \<times> Trades)" where
  "MatchOrders_inner [] askq ords trades = Inr ([], askq, ords, trades)"
| "MatchOrders_inner (bid # bidq) [] ords trades = Inr (bid # bidq, [], ords, trades)"
| "MatchOrders_inner (bid # bidq) (ask # askq) ords trades =
     (case MatchOrders_body bid bidq ask askq ords trades of
        Inl e \<Rightarrow> Inl e
      | Inr (bidq1, askq1, ords1, trades1) \<Rightarrow> MatchOrders_inner bidq1 askq1 ords1 trades1)"
  by pat_completeness auto
termination
  by (relation "measure (\<lambda>(bidq, askq, ords, trades). length bidq + length askq)")
     (auto dest: MatchOrders_body_shorter)

lemma MatchOrders_inner_exhausts:
  "MatchOrders_inner bidq askq ords trades = Inr (bidq1, askq1, ords1, trades1)
     \<Longrightarrow> bidq1 = [] \<or> askq1 = []"
  by (induction bidq askq ords trades rule: MatchOrders_inner.induct)
     (auto split: sum.splits)

text \<open>
  The body of the outer \<^verbatim>\<open>while\<close> loop of \<^verbatim>\<open>MatchOrders\<close> after its
  \<^verbatim>\<open>break\<close> test: the inner loop on the two best queues, then the two
  \<^verbatim>\<open>erase\<close> statements. \<^verbatim>\<open>bidIt\<close> and \<^verbatim>\<open>askIt\<close> are \<^verbatim>\<open>begin()\<close> of
  the two maps, so \<^verbatim>\<open>bids_.erase(bidIt)\<close> drops the first level.
\<close>

definition MatchOrders_level ::
  "Price \<Rightarrow> OrderPointers \<Rightarrow> Levels \<Rightarrow> Price \<Rightarrow> OrderPointers \<Rightarrow> Levels
     \<Rightarrow> (OrderId \<rightharpoonup> OrderEntry) \<Rightarrow> Trades \<Rightarrow> error + (Orderbook \<times> Trades)" where
  "MatchOrders_level bidPrice bidq bidRest askPrice askq askRest ords trades =
     (case MatchOrders_inner bidq askq ords trades of
        Inl e \<Rightarrow> Inl e
      | Inr (bidq1, askq1, ords1, trades1) \<Rightarrow>
          Inr (\<lparr>bids = (if bidq1 = [] then bidRest else (bidPrice, bidq1) # bidRest),
                asks = (if askq1 = [] then askRest else (askPrice, askq1) # askRest),
                orders = ords1\<rparr>,
               trades1))"

lemma MatchOrders_level_fewer:
  assumes "MatchOrders_level bidPrice bidq bidRest askPrice askq askRest ords trades = Inr (s1, trades1)"
  shows "length (bids s1) + length (asks s1)
           < length ((bidPrice, bidq) # bidRest) + length ((askPrice, askq) # askRest)"
  using assms
  by (auto simp: MatchOrders_level_def split: sum.splits dest: MatchOrders_inner_exhausts)

text \<open>The outer \<^verbatim>\<open>while (!bids_.empty() && !asks_.empty())\<close>.\<close>

function MatchOrders_outer :: "Orderbook \<Rightarrow> Trades \<Rightarrow> error + (Trades \<times> Orderbook)" where
  "MatchOrders_outer s trades =
     (case bids s of
        [] \<Rightarrow> Inr (trades, s)
      | (bidPrice, bidq) # bidRest \<Rightarrow>
          (case asks s of
             [] \<Rightarrow> Inr (trades, s)
           | (askPrice, askq) # askRest \<Rightarrow>
               if bidPrice <s askPrice then Inr (trades, s)
               else
                 (case MatchOrders_level bidPrice bidq bidRest askPrice askq askRest
                         (orders s) trades of
                    Inl e \<Rightarrow> Inl e
                  | Inr (s1, trades1) \<Rightarrow> MatchOrders_outer s1 trades1)))"
  by pat_completeness auto
termination
  by (relation "measure (\<lambda>(s, trades). length (bids s) + length (asks s))")
     (auto dest: MatchOrders_level_fewer)

declare MatchOrders_outer.simps [simp del]

definition MatchOrders :: "Orderbook \<Rightarrow> error + (Trades \<times> Orderbook)" where
  "MatchOrders s = MatchOrders_outer s []"

subsection \<open>The public operations\<close>

definition AddOrder :: "Orderbook \<Rightarrow> Order \<Rightarrow> error + (Trades \<times> Orderbook)" where
  "AddOrder s ord =
     (if orderId ord \<in> dom (orders s) then Inr ([], s)
      else if orderType ord = FillAndKill \<and> \<not> CanMatch s (side ord) (price ord) then Inr ([], s)
      else
        (let s1 = (if side ord = Buy
                   then s\<lparr>bids := level_push_back greater_Price (price ord) ord (bids s)\<rparr>
                   else s\<lparr>asks := level_push_back less_Price (price ord) ord (asks s)\<rparr>);
             s2 = s1\<lparr>orders := index_insert (orderId ord)
                                  \<lparr>entry_order = ord, entry_location = orderId ord\<rparr> (orders s1)\<rparr>
         in MatchOrders s2))"

definition CancelOrder :: "Orderbook \<Rightarrow> OrderId \<Rightarrow> error + Orderbook" where
  "CancelOrder s oid =
     (case orders s oid of
        None \<Rightarrow> Inr s
      | Some e \<Rightarrow>
          (let s1 = s\<lparr>orders := (orders s)(oid := None)\<rparr>;
               p = price (entry_order e)
           in if side (entry_order e) = Sell then
                (case level_at (asks s1) p of
                   None \<Rightarrow> Inl out_of_range
                 | Some q \<Rightarrow>
                     (let q1 = list_erase (entry_location e) q
                      in Inr (s1\<lparr>asks := (if q1 = [] then level_erase p (asks s1)
                                           else level_assign p q1 (asks s1))\<rparr>)))
              else
                (case level_at (bids s1) p of
                   None \<Rightarrow> Inl out_of_range
                 | Some q \<Rightarrow>
                     (let q1 = list_erase (entry_location e) q
                      in Inr (s1\<lparr>bids := (if q1 = [] then level_erase p (bids s1)
                                           else level_assign p q1 (bids s1))\<rparr>)))))"

definition MatchOrder :: "Orderbook \<Rightarrow> OrderModify \<Rightarrow> error + (Trades \<times> Orderbook)" where
  "MatchOrder s om =
     (case orders s (m_orderId om) of
        None \<Rightarrow> Inr ([], s)
      | Some existing \<Rightarrow>
          (case CancelOrder s (m_orderId om) of
             Inl e \<Rightarrow> Inl e
           | Inr s1 \<Rightarrow> AddOrder s1 (ToOrderPointer om (orderType (entry_order existing)))))"

text \<open>\<^verbatim>\<open>Size\<close> is \<^verbatim>\<open>orders_.size()\<close>, the number of entries of the index.\<close>

definition Size :: "Orderbook \<Rightarrow> nat" where
  "Size s = card (dom (orders s))"

text \<open>
  \<^verbatim>\<open>GetOrderInfos\<close> is a \<^verbatim>\<open>const\<close> method: it returns the two vectors and has no
  state to return. \<^verbatim>\<open>std::accumulate\<close> folds from the left, in \<^verbatim>\<open>Quantity\<close>.
\<close>

definition CreateLevelInfo :: "Price \<Rightarrow> OrderPointers \<Rightarrow> LevelInfo" where
  "CreateLevelInfo p q =
     \<lparr>l_price = p, l_quantity = foldl (\<lambda>sum ord. sum + remainingQuantity ord) 0 q\<rparr>"

definition GetOrderInfos :: "Orderbook \<Rightarrow> OrderbookLevelInfos" where
  "GetOrderInfos s =
     \<lparr>info_bids = map (\<lambda>(p, q). CreateLevelInfo p q) (bids s),
      info_asks = map (\<lambda>(p, q). CreateLevelInfo p q) (asks s)\<rparr>"

section \<open>Claims\<close>

subsection \<open>C8: Order::Fill\<close>

text \<open>
  Claim C8. For every order and every fill quantity \<open>q\<close>: when \<open>q\<close> exceeds the
  remaining quantity, \<open>Fill\<close> throws the logic error and the order is as it was; when
  \<open>q\<close> is at most the remaining quantity, \<open>Fill\<close> succeeds and the remaining quantity
  decreases by exactly \<open>q\<close> (as numbers, nothing wraps or is clamped) while every other
  field keeps its value.
\<close>

theorem Fill_overfill_or_exact:
  "(remainingQuantity ord < q \<longrightarrow> Fill ord q = (Some (logic_error (orderId ord)), ord)) \<and>
   (q \<le> remainingQuantity ord \<longrightarrow>
      (\<exists>ord'. Fill ord q = (None, ord') \<and>
         unat (remainingQuantity ord') + unat q = unat (remainingQuantity ord) \<and>
         ord' = ord\<lparr>remainingQuantity := remainingQuantity ord'\<rparr>))"
proof (intro conjI impI)
  assume "remainingQuantity ord < q"
  then show "Fill ord q = (Some (logic_error (orderId ord)), ord)"
    by (simp add: Fill_def)
next
  assume le: "q \<le> remainingQuantity ord"
  then have "unat (remainingQuantity ord - q) = unat (remainingQuantity ord) - unat q"
    by (rule unat_sub)
  moreover from le have "unat q \<le> unat (remainingQuantity ord)"
    by (simp add: word_le_nat_alt)
  ultimately show "\<exists>ord'. Fill ord q = (None, ord') \<and>
         unat (remainingQuantity ord') + unat q = unat (remainingQuantity ord) \<and>
         ord' = ord\<lparr>remainingQuantity := remainingQuantity ord'\<rparr>"
    using le by (simp add: Fill_def not_less)
qed

theorem Fill_overfill_or_exact_witness:
  "Fill (mk_Order GoodTillCancel 7 Buy 100 10) 11
     = (Some (logic_error 7), mk_Order GoodTillCancel 7 Buy 100 10) \<and>
   Fill (mk_Order GoodTillCancel 7 Buy 100 10) 4
     = (None, (mk_Order GoodTillCancel 7 Buy 100 10)\<lparr>remainingQuantity := 6\<rparr>)"
proof -
  let ?ord = "mk_Order GoodTillCancel 7 Buy 100 10"
  have lt: "remainingQuantity ?ord < 11" and le: "4 \<le> remainingQuantity ?ord"
    by (simp_all add: mk_Order_def)
  from Fill_overfill_or_exact [of ?ord 11] lt
  have "Fill ?ord 11 = (Some (logic_error (orderId ?ord)), ?ord)" by blast
  moreover from Fill_overfill_or_exact [of ?ord 4] le
  obtain ord' where "Fill ?ord 4 = (None, ord')"
    and "unat (remainingQuantity ord') + unat (4 :: Quantity) = unat (remainingQuantity ?ord)"
    and "ord' = ?ord\<lparr>remainingQuantity := remainingQuantity ord'\<rparr>" by blast
  ultimately show ?thesis
    by (simp add: mk_Order_def Fill_def)
qed

end
